theory Spec2Isabelle
  imports Main "HOL-Library.Sublist" "HOL-Library.Multiset"
begin

section \<open>Strings\<close>

text \<open>
  A Python \<open>str\<close> is a sequence of Unicode code points. Two catalog strings hold code
  points above 255 or outside ASCII (U+2192 in a title, U+00E0 in two texts), so a string
  is a list of code points, not a list of 8-bit characters.
\<close>

type_synonym str = "nat list"

definition ascii :: "string \<Rightarrow> str" where
  "ascii cs = map of_char cs"

text \<open>
  \<open>str.lower()\<close>. On Basic Latin and the Latin-1 Supplement it works per code point and
  is the same in every interpreter: A to Z and U+00C0 to U+00DE, without U+00D7, move up
  by 32, and nothing else changes. The arrow U+2192 has no case. Every string of the
  catalog lies in this range.
\<close>

definition lower_cp :: "nat \<Rightarrow> nat" where
  "lower_cp c =
     (if 65 \<le> c \<and> c \<le> 90 then c + 32
      else if 192 \<le> c \<and> c \<le> 222 \<and> c \<noteq> 215 then c + 32
      else c)"

definition fixed_cp :: "nat \<Rightarrow> bool" where
  "fixed_cp c \<longleftrightarrow> c < 256 \<or> c = 8594"

text \<open>
  Outside this range the result of \<open>str.lower()\<close> comes from the Unicode database of the
  running interpreter: many more code points change, U+0130 becomes two code points and
  U+03A3 depends on its neighbours. That database is not part of the repository, so the
  lowering of a string that leaves the range is the parameter \<open>ulower\<close>, and every
  function that lowers a string takes it.
\<close>

definition str_lower :: "(str \<Rightarrow> str) \<Rightarrow> str \<Rightarrow> str" where
  "str_lower ulower s = (if list_all fixed_cp s then map lower_cp s else ulower s)"

text \<open>
  One value of the parameter, for the examples: a database with no case mapping above
  U+00FF.
\<close>

definition latin1_lower :: "str \<Rightarrow> str" where
  "latin1_lower s = map lower_cp s"

text \<open>The code points on which \<open>str.split()\<close> without arguments splits.\<close>

definition is_space :: "nat \<Rightarrow> bool" where
  "is_space c \<longleftrightarrow>
     (9 \<le> c \<and> c \<le> 13) \<or> (28 \<le> c \<and> c \<le> 32) \<or> c = 133 \<or> c = 160 \<or> c = 5760 \<or>
     (8192 \<le> c \<and> c \<le> 8202) \<or> c = 8232 \<or> c = 8233 \<or> c = 8239 \<or> c = 8287 \<or>
     c = 12288"

text \<open>
  \<open>str.split()\<close>: the maximal runs of code points that are not whitespace, in order;
  \<open>cur\<close> is the run being read.
\<close>

fun split_acc :: "str \<Rightarrow> str \<Rightarrow> str list" where
  "split_acc cur [] = (if cur = [] then [] else [cur])"
| "split_acc cur (c # cs) =
     (if is_space c then (if cur = [] then split_acc [] cs else cur # split_acc [] cs)
      else split_acc (cur @ [c]) cs)"

definition str_split :: "str \<Rightarrow> str list" where
  "str_split s = split_acc [] s"

text \<open>\<open>kw in s\<close> on strings: \<open>kw\<close> occurs in \<open>s\<close> as a contiguous run.\<close>

fun starts_with :: "str \<Rightarrow> str \<Rightarrow> bool" where
  "starts_with s [] = True"
| "starts_with [] (k # ks) = False"
| "starts_with (c # cs) (k # ks) = (c = k \<and> starts_with cs ks)"

fun str_in :: "str \<Rightarrow> str \<Rightarrow> bool" where
  "str_in kw [] = (kw = [])"
| "str_in kw (c # cs) = (starts_with (c # cs) kw \<or> str_in kw cs)"

section \<open>Data model\<close>

record Solution =
  sol_id :: str
  title :: str
  category :: str
  description :: str
  impact :: str
  tools :: "str list"
  complexity :: str

record RecommendRequest =
  industry :: "str option"
  team_size :: "str option"
  goals :: "str list"
  processes :: "str list"

section \<open>The catalog\<close>

definition lead_capture_crm :: Solution where
  "lead_capture_crm = \<lparr>
     sol_id = ascii ''lead-capture-crm'',
     title = ascii ''Acquisizione lead '' @ [8594] @ ascii '' CRM'',
     category = ascii ''Vendite'',
     description = ascii ''Raccogli i lead da form e landing e inseriscili automaticamente nel CRM con deduplicazione e arricchimento dati.'',
     impact = ascii ''Riduce tempi manuali e migliora la qualit'' @ [224] @ ascii '' dei dati'',
     tools = [ascii ''Webhooks'', ascii ''Zapier/Make'', ascii ''HubSpot/Pipedrive''],
     complexity = ascii ''Low'' \<rparr>"

definition invoice_automation :: Solution where
  "invoice_automation = \<lparr>
     sol_id = ascii ''invoice-automation'',
     title = ascii ''Fatturazione automatica'',
     category = ascii ''Finance'',
     description = ascii ''Genera fatture dai contratti/ordini, inviale e registra i pagamenti con riconciliazione.'',
     impact = ascii ''Riduce errori e velocizza il cash-flow'',
     tools = [ascii ''ERP/Conta'', ascii ''Stripe'', ascii ''Zapier''],
     complexity = ascii ''Medium'' \<rparr>"

definition marketing_drip :: Solution where
  "marketing_drip = \<lparr>
     sol_id = ascii ''marketing-drip'',
     title = ascii ''Email drip marketing'',
     category = ascii ''Marketing'',
     description = ascii ''Sequenze email automatiche basate su comportamento utente e segmenti.'',
     impact = ascii ''Aumenta conversioni e LTV'',
     tools = [ascii ''Mailchimp/Customer.io'', ascii ''Segment'', ascii ''Webhook''],
     complexity = ascii ''Low'' \<rparr>"

definition support_triage :: Solution where
  "support_triage = \<lparr>
     sol_id = ascii ''support-triage'',
     title = ascii ''Smistamento ticket con AI'',
     category = ascii ''Supporto'',
     description = ascii ''Classifica automaticamente i ticket per priorit'' @ [224] @ ascii '', lingua e argomento, assegnandoli al team giusto.'',
     impact = ascii ''Riduce i tempi di risposta'',
     tools = [ascii ''Helpdesk'', ascii ''AI classifier'', ascii ''Webhook''],
     complexity = ascii ''Medium'' \<rparr>"

definition ops_dashboard :: Solution where
  "ops_dashboard = \<lparr>
     sol_id = ascii ''ops-dashboard'',
     title = ascii ''Dashboard operativa live'',
     category = ascii ''Operazioni'',
     description = ascii ''Unifica dati da CRM, supporto e fatturazione in un'' @ [39] @ ascii ''unica dashboard con KPI aggiornati.'',
     impact = ascii ''Migliora visibilit'' @ [224] @ ascii '' e decisioni'',
     tools = [ascii ''BigQuery'', ascii ''Metabase/Looker'', ascii ''ETL''],
     complexity = ascii ''High'' \<rparr>"

definition CATALOG :: "Solution list" where
  "CATALOG = [lead_capture_crm, invoice_automation, marketing_drip, support_triage,
     ops_dashboard]"

text \<open>The string-valued fields of an entry, in the order of the class.\<close>

definition text_fields :: "Solution \<Rightarrow> str list" where
  "text_fields sol =
     [sol_id sol, title sol, category sol, description sol, impact sol] @ tools sol
       @ [complexity sol]"

section \<open>Scoring\<close>

text \<open>\<open>req.industry or ""\<close>.\<close>

definition industry_or_empty :: "RecommendRequest \<Rightarrow> str" where
  "industry_or_empty req = (case industry req of None \<Rightarrow> [] | Some i \<Rightarrow> i)"

text \<open>
  The set \<open>keywords\<close>: the tokens of the lowercased industry, then the goals and the
  processes as they are.
\<close>

definition keywords_of :: "(str \<Rightarrow> str) \<Rightarrow> RecommendRequest \<Rightarrow> str set" where
  "keywords_of ulower req =
     set (str_split (str_lower ulower (industry_or_empty req))) \<union> set (goals req)
       \<union> set (processes req)"

text \<open>
  A Python set is iterated in an order the language does not fix. The loop over the set
  is therefore written over a list \<open>ks\<close> that enumerates it; \<open>kw_order\<close> is one such
  enumeration.
\<close>

definition kw_order :: "(str \<Rightarrow> str) \<Rightarrow> RecommendRequest \<Rightarrow> str list" where
  "kw_order ulower req =
     remdups
       (str_split (str_lower ulower (industry_or_empty req)) @ goals req @ processes req)"

text \<open>The string \<open>s\<close> built in \<open>score\<close>.\<close>

definition haystack :: "(str \<Rightarrow> str) \<Rightarrow> Solution \<Rightarrow> str" where
  "haystack ulower sol =
     str_lower ulower (title sol) @ ascii '' '' @ str_lower ulower (category sol)
       @ ascii '' '' @ str_lower ulower (description sol)"

text \<open>\<open>for kw in keywords: if kw and kw in s: base += 2\<close>.\<close>

fun kw_loop :: "str \<Rightarrow> str list \<Rightarrow> int \<Rightarrow> int" where
  "kw_loop s [] base = base"
| "kw_loop s (kw # kws) base =
     kw_loop s kws (if kw \<noteq> [] \<and> str_in kw s then base + 2 else base)"

text \<open>The three bonuses, each the amount its \<open>if\<close> adds to \<open>base\<close>.\<close>

definition errors_bonus :: "RecommendRequest \<Rightarrow> str \<Rightarrow> int" where
  "errors_bonus req s =
     (if ascii ''reduce_errors'' \<in> set (goals req) \<and> str_in (ascii ''error'') s
      then 2 else 0)"

definition time_bonus :: "RecommendRequest \<Rightarrow> str \<Rightarrow> int" where
  "time_bonus req s =
     (if ascii ''save_time'' \<in> set (goals req) \<and> str_in (ascii ''tempo'') s
      then 2 else 0)"

definition low_bonus :: "RecommendRequest \<Rightarrow> Solution \<Rightarrow> int" where
  "low_bonus req sol =
     (if complexity sol = ascii ''Low''
         \<and> team_size req \<in> {Some (ascii ''solo''), Some (ascii ''small''), None}
      then 1 else 0)"

definition score_iter ::
  "(str \<Rightarrow> str) \<Rightarrow> str list \<Rightarrow> RecommendRequest \<Rightarrow> Solution \<Rightarrow> int" where
  "score_iter ulower ks req sol =
     (let s = haystack ulower sol in
      kw_loop s ks 0 + errors_bonus req s + time_bonus req s + low_bonus req sol)"

definition score :: "(str \<Rightarrow> str) \<Rightarrow> RecommendRequest \<Rightarrow> Solution \<Rightarrow> int" where
  "score ulower req sol = score_iter ulower (kw_order ulower req) req sol"

section \<open>The two operations\<close>

text \<open>
  \<open>sorted(xs, key=key, reverse=True)\<close>: descending by key, and stable (elements with
  equal keys keep their order). It builds a new list.
\<close>

definition sorted_rev :: "('a \<Rightarrow> int) \<Rightarrow> 'a list \<Rightarrow> 'a list" where
  "sorted_rev key xs = sort_key (\<lambda>x. - key x) xs"

text \<open>
  The module global \<open>CATALOG\<close> is the only state the two operations can reach. Each
  operation takes its current value and returns its result with the value afterwards.
\<close>

type_synonym store = "Solution list"

definition list_solutions :: "store \<Rightarrow> Solution list \<times> store" where
  "list_solutions cat = (cat, cat)"

definition recommend_iter ::
  "(str \<Rightarrow> str) \<Rightarrow> str list \<Rightarrow> RecommendRequest \<Rightarrow> store
     \<Rightarrow> Solution list \<times> store" where
  "recommend_iter ulower ks req cat =
     (let ranked = sorted_rev (score_iter ulower ks req) cat in (take 3 ranked, cat))"

definition recommend ::
  "(str \<Rightarrow> str) \<Rightarrow> RecommendRequest \<Rightarrow> store \<Rightarrow> Solution list \<times> store" where
  "recommend ulower req cat = recommend_iter ulower (kw_order ulower req) req cat"

text \<open>A run of calls against the store.\<close>

datatype call = ListSolutions | Recommend RecommendRequest

fun exec_call :: "(str \<Rightarrow> str) \<Rightarrow> call \<Rightarrow> store \<Rightarrow> Solution list \<times> store" where
  "exec_call ulower ListSolutions cat = list_solutions cat"
| "exec_call ulower (Recommend req) cat = recommend ulower req cat"

fun run_calls :: "(str \<Rightarrow> str) \<Rightarrow> call list \<Rightarrow> store \<Rightarrow> store" where
  "run_calls ulower [] cat = cat"
| "run_calls ulower (c # cs) cat = run_calls ulower cs (snd (exec_call ulower c cat))"

section \<open>Requests used as examples\<close>

text \<open>Scenario 4 of the specification: nothing given.\<close>

definition empty_request :: RecommendRequest where
  "empty_request = \<lparr> industry = None, team_size = None, goals = [], processes = [] \<rparr>"

text \<open>Scenario 1 of the specification: one goal, nothing else.\<close>

definition reduce_errors_request :: RecommendRequest where
  "reduce_errors_request =
     \<lparr> industry = None, team_size = None, goals = [ascii ''reduce_errors''],
       processes = [] \<rparr>"

text \<open>Scenario 3 of the specification.\<close>

definition save_time_request :: RecommendRequest where
  "save_time_request =
     \<lparr> industry = None, team_size = None, goals = [ascii ''save_time''],
       processes = [ascii ''lead_intake''] \<rparr>"

text \<open>A request with an industry of two words, extra whitespace and mixed case.\<close>

definition sample_request :: RecommendRequest where
  "sample_request =
     \<lparr> industry = Some (ascii ''Lead  CRM''), team_size = Some (ascii ''huge''),
       goals = [ascii ''save_time''], processes = [ascii ''dati''] \<rparr>"

text \<open>
  An industry outside the fixed range: the Kelvin sign U+212A, which \<open>str.lower()\<close>
  turns into the letter k.
\<close>

definition kelvin_request :: RecommendRequest where
  "kelvin_request =
     \<lparr> industry = Some [8490], team_size = Some (ascii ''medium''), goals = [],
       processes = [] \<rparr>"

text \<open>A goal outside the vocabulary that occurs in every haystack.\<close>

definition letter_request :: RecommendRequest where
  "letter_request =
     \<lparr> industry = None, team_size = None, goals = [ascii ''e''], processes = [] \<rparr>"

text \<open>A request whose every field is unusable.\<close>

definition nonsense_request :: RecommendRequest where
  "nonsense_request =
     \<lparr> industry = Some (ascii ''  ''), team_size = Some (ascii ''huge''),
       goals = [ascii ''fly_to_mars''], processes = [[]] \<rparr>"

section \<open>Strings and the keyword loop\<close>

lemma starts_with_prefix: "starts_with s kw \<longleftrightarrow> prefix kw s"
  by (induction s kw rule: starts_with.induct) auto

lemma str_in_sublist: "str_in kw s \<longleftrightarrow> sublist kw s"
proof (induction s)
  case Nil
  show ?case by simp
next
  case (Cons c cs)
  then show ?case by (simp add: starts_with_prefix sublist_Cons_right)
qed

lemma str_lower_empty: "str_lower ulower [] = []"
  by (simp add: str_lower_def)

lemma str_lower_latin1: "str_lower latin1_lower s = map lower_cp s"
  by (simp add: str_lower_def latin1_lower_def)

lemma kw_loop_shift: "kw_loop s ks b = b + kw_loop s ks 0"
proof (induction ks arbitrary: b)
  case Nil
  show ?case by simp
next
  case (Cons k ks)
  show ?case
    using Cons.IH [of "b + 2"] Cons.IH [of 2] Cons.IH [of b] by simp
qed

lemma kw_loop_filter:
  "kw_loop s ks 0 = 2 * int (length (filter (\<lambda>kw. kw \<noteq> [] \<and> str_in kw s) ks))"
proof (induction ks)
  case Nil
  show ?case by simp
next
  case (Cons k ks)
  show ?case
    using Cons.IH kw_loop_shift [of s ks 2] by simp
qed

lemma kw_loop_card:
  assumes "distinct ks"
  shows "kw_loop s ks 0 = 2 * int (card {kw \<in> set ks. kw \<noteq> [] \<and> str_in kw s})"
proof -
  have d: "distinct (filter (\<lambda>kw. kw \<noteq> [] \<and> str_in kw s) ks)"
    using assms by simp
  have "card {kw \<in> set ks. kw \<noteq> [] \<and> str_in kw s}
          = length (filter (\<lambda>kw. kw \<noteq> [] \<and> str_in kw s) ks)"
    using distinct_card [OF d] by simp
  then show ?thesis by (simp add: kw_loop_filter)
qed

lemma set_kw_order: "set (kw_order ulower req) = keywords_of ulower req"
  by (simp add: kw_order_def keywords_of_def Un_assoc)

lemma distinct_kw_order: "distinct (kw_order ulower req)"
  by (simp add: kw_order_def)

lemma kw_loop_order:
  assumes "distinct ks1" "distinct ks2" "set ks1 = set ks2"
  shows "kw_loop s ks1 0 = kw_loop s ks2 0"
  using assms by (simp add: kw_loop_card)

lemma mset_sorted_rev: "mset (sorted_rev key xs) = mset xs"
  by (simp add: sorted_rev_def)

lemma length_sorted_rev: "length (sorted_rev key xs) = length xs"
  by (simp add: sorted_rev_def)

lemma set_sorted_rev: "set (sorted_rev key xs) = set xs"
  by (simp add: sorted_rev_def)

lemma sorted_rev_descending:
  "sorted_wrt (\<lambda>a b. key b \<le> key a) (sorted_rev key xs)"
proof -
  have "sorted (map (\<lambda>x. - key x) (sorted_rev key xs))"
    unfolding sorted_rev_def by (rule sorted_sort_key)
  then show ?thesis by (simp add: sorted_wrt_map)
qed

lemma sorted_rev_stable:
  "filter (\<lambda>x. key x = k) (sorted_rev key xs) = filter (\<lambda>x. key x = k) xs"
proof -
  have "filter (\<lambda>x. - key x = - k) (sort_key (\<lambda>x. - key x) xs)
          = filter (\<lambda>x. - key x = - k) xs"
    by (rule sort_key_stable)
  then show ?thesis by (simp add: sorted_rev_def)
qed

lemma run_calls_store: "run_calls ulower cs cat = cat"
proof (induction cs arbitrary: cat)
  case Nil
  show ?case by simp
next
  case (Cons c cs)
  have "snd (exec_call ulower c cat) = cat"
    by (cases c) (simp_all add: list_solutions_def recommend_def recommend_iter_def)
  then show ?case using Cons.IH by simp
qed

lemma score_parts:
  "score_iter ulower ks req sol =
     kw_loop (haystack ulower sol) ks 0 + errors_bonus req (haystack ulower sol)
       + time_bonus req (haystack ulower sol) + low_bonus req sol"
  by (simp add: score_iter_def Let_def)

lemma recommend_by_score:
  "fst (recommend ulower req cat) = take 3 (sorted_rev (score ulower req) cat)"
proof -
  have "score ulower req = score_iter ulower (kw_order ulower req) req"
    by (simp add: fun_eq_iff score_def)
  then show ?thesis by (simp add: recommend_def recommend_iter_def)
qed

lemma sorted_rev_five:
  assumes "key a = 1" "key b = 0" "key c = 1" "key d = 0" "key e = 0"
  shows "sorted_rev key [a, b, c, d, e] = [a, c, b, d, e]"
  using assms by (simp add: sorted_rev_def)

section \<open>The catalog, evaluated\<close>

text \<open>The five haystacks. None of them depends on the parameter.\<close>

lemma haystack_lead_capture_crm:
  "haystack ulower lead_capture_crm =
     ascii ''acquisizione lead '' @ [8594] @ ascii '' crm vendite raccogli i lead da form e landing e inseriscili automaticamente nel crm con deduplicazione e arricchimento dati.''"
  by (simp add: haystack_def str_lower_def fixed_cp_def lower_cp_def ascii_def
      lead_capture_crm_def)

lemma haystack_invoice_automation:
  "haystack ulower invoice_automation =
     ascii ''fatturazione automatica finance genera fatture dai contratti/ordini, inviale e registra i pagamenti con riconciliazione.''"
  by (simp add: haystack_def str_lower_def fixed_cp_def lower_cp_def ascii_def
      invoice_automation_def)

lemma haystack_marketing_drip:
  "haystack ulower marketing_drip =
     ascii ''email drip marketing marketing sequenze email automatiche basate su comportamento utente e segmenti.''"
  by (simp add: haystack_def str_lower_def fixed_cp_def lower_cp_def ascii_def
      marketing_drip_def)

lemma haystack_support_triage:
  "haystack ulower support_triage =
     ascii ''smistamento ticket con ai supporto classifica automaticamente i ticket per priorit'' @ [224] @ ascii '', lingua e argomento, assegnandoli al team giusto.''"
  by (simp add: haystack_def str_lower_def fixed_cp_def lower_cp_def ascii_def
      support_triage_def)

lemma haystack_ops_dashboard:
  "haystack ulower ops_dashboard =
     ascii ''dashboard operativa live operazioni unifica dati da crm, supporto e fatturazione in un'' @ [39] @ ascii ''unica dashboard con kpi aggiornati.''"
  by (simp add: haystack_def str_lower_def fixed_cp_def lower_cp_def ascii_def
      ops_dashboard_def)

lemmas str_eval = haystack_lead_capture_crm haystack_invoice_automation
  haystack_marketing_drip haystack_support_triage haystack_ops_dashboard ascii_def

lemma error_not_in_haystack:
  "\<not> str_in (ascii ''error'') (haystack ulower lead_capture_crm)"
  "\<not> str_in (ascii ''error'') (haystack ulower invoice_automation)"
  "\<not> str_in (ascii ''error'') (haystack ulower marketing_drip)"
  "\<not> str_in (ascii ''error'') (haystack ulower support_triage)"
  "\<not> str_in (ascii ''error'') (haystack ulower ops_dashboard)"
  by (simp_all add: str_eval)

lemma tempo_not_in_haystack:
  "\<not> str_in (ascii ''tempo'') (haystack ulower lead_capture_crm)"
  "\<not> str_in (ascii ''tempo'') (haystack ulower invoice_automation)"
  "\<not> str_in (ascii ''tempo'') (haystack ulower marketing_drip)"
  "\<not> str_in (ascii ''tempo'') (haystack ulower support_triage)"
  "\<not> str_in (ascii ''tempo'') (haystack ulower ops_dashboard)"
  by (simp_all add: str_eval)

lemma errors_bonus_catalog:
  "errors_bonus req (haystack ulower lead_capture_crm) = 0"
  "errors_bonus req (haystack ulower invoice_automation) = 0"
  "errors_bonus req (haystack ulower marketing_drip) = 0"
  "errors_bonus req (haystack ulower support_triage) = 0"
  "errors_bonus req (haystack ulower ops_dashboard) = 0"
  by (simp_all add: errors_bonus_def error_not_in_haystack)

lemma time_bonus_catalog:
  "time_bonus req (haystack ulower lead_capture_crm) = 0"
  "time_bonus req (haystack ulower invoice_automation) = 0"
  "time_bonus req (haystack ulower marketing_drip) = 0"
  "time_bonus req (haystack ulower support_triage) = 0"
  "time_bonus req (haystack ulower ops_dashboard) = 0"
  by (simp_all add: time_bonus_def tempo_not_in_haystack)

lemma low_bonus_absent_team_size:
  "team_size req = None \<Longrightarrow> low_bonus req lead_capture_crm = 1"
  "team_size req = None \<Longrightarrow> low_bonus req invoice_automation = 0"
  "team_size req = None \<Longrightarrow> low_bonus req marketing_drip = 1"
  "team_size req = None \<Longrightarrow> low_bonus req support_triage = 0"
  "team_size req = None \<Longrightarrow> low_bonus req ops_dashboard = 0"
  by (simp_all add: low_bonus_def ascii_def lead_capture_crm_def invoice_automation_def
      marketing_drip_def support_triage_def ops_dashboard_def)

lemma catalog_entries_differ: "invoice_automation \<noteq> marketing_drip"
  by (simp add: invoice_automation_def marketing_drip_def ascii_def)

text \<open>Where \<open>error\<close> and \<open>tempo\<close> occur in the lowercased fields of the entries.\<close>

lemmas field_eval = text_fields_def str_lower_def fixed_cp_def lower_cp_def ascii_def

lemma error_in_fields:
  "map (\<lambda>f. str_in (ascii ''error'') (str_lower ulower f)) (text_fields lead_capture_crm)
     = [False, False, False, False, False, False, False, False, False]"
  "map (\<lambda>f. str_in (ascii ''error'') (str_lower ulower f)) (text_fields invoice_automation)
     = [False, False, False, False, True, False, False, False, False]"
  "map (\<lambda>f. str_in (ascii ''error'') (str_lower ulower f)) (text_fields marketing_drip)
     = [False, False, False, False, False, False, False, False, False]"
  "map (\<lambda>f. str_in (ascii ''error'') (str_lower ulower f)) (text_fields support_triage)
     = [False, False, False, False, False, False, False, False, False]"
  "map (\<lambda>f. str_in (ascii ''error'') (str_lower ulower f)) (text_fields ops_dashboard)
     = [False, False, False, False, False, False, False, False, False]"
  by (simp_all add: field_eval lead_capture_crm_def invoice_automation_def
      marketing_drip_def support_triage_def ops_dashboard_def)

lemma tempo_in_fields:
  "map (\<lambda>f. str_in (ascii ''tempo'') (str_lower ulower f)) (text_fields lead_capture_crm)
     = [False, False, False, False, False, False, False, False, False]"
  "map (\<lambda>f. str_in (ascii ''tempo'') (str_lower ulower f)) (text_fields invoice_automation)
     = [False, False, False, False, False, False, False, False, False]"
  "map (\<lambda>f. str_in (ascii ''tempo'') (str_lower ulower f)) (text_fields marketing_drip)
     = [False, False, False, False, False, False, False, False, False]"
  "map (\<lambda>f. str_in (ascii ''tempo'') (str_lower ulower f)) (text_fields support_triage)
     = [False, False, False, False, False, False, False, False, False]"
  "map (\<lambda>f. str_in (ascii ''tempo'') (str_lower ulower f)) (text_fields ops_dashboard)
     = [False, False, False, False, False, False, False, False, False]"
  by (simp_all add: field_eval lead_capture_crm_def invoice_automation_def
      marketing_drip_def support_triage_def ops_dashboard_def)

lemma tempo_not_in_impact:
  "\<not> str_in (ascii ''tempo'') (str_lower ulower (impact lead_capture_crm))"
  "\<not> str_in (ascii ''tempo'') (str_lower ulower (impact invoice_automation))"
  "\<not> str_in (ascii ''tempo'') (str_lower ulower (impact marketing_drip))"
  "\<not> str_in (ascii ''tempo'') (str_lower ulower (impact support_triage))"
  "\<not> str_in (ascii ''tempo'') (str_lower ulower (impact ops_dashboard))"
  by (simp_all add: field_eval lead_capture_crm_def invoice_automation_def
      marketing_drip_def support_triage_def ops_dashboard_def)

lemma error_in_invoice_impact:
  "str_in (ascii ''error'') (str_lower ulower (impact invoice_automation))"
  by (simp add: field_eval invoice_automation_def)

section \<open>The example requests, evaluated\<close>

lemma kw_order_empty: "kw_order ulower empty_request = []"
  by (simp add: kw_order_def empty_request_def industry_or_empty_def str_lower_def
      str_split_def)

lemma score_empty_request:
  "score ulower empty_request lead_capture_crm = 1"
  "score ulower empty_request invoice_automation = 0"
  "score ulower empty_request marketing_drip = 1"
  "score ulower empty_request support_triage = 0"
  "score ulower empty_request ops_dashboard = 0"
proof -
  have ts: "team_size empty_request = None" by (simp add: empty_request_def)
  show "score ulower empty_request lead_capture_crm = 1"
    "score ulower empty_request invoice_automation = 0"
    "score ulower empty_request marketing_drip = 1"
    "score ulower empty_request support_triage = 0"
    "score ulower empty_request ops_dashboard = 0"
    by (simp_all add: score_def score_parts kw_order_empty errors_bonus_catalog
        time_bonus_catalog low_bonus_absent_team_size [OF ts])
qed

lemma recommend_empty_request:
  "fst (recommend ulower empty_request CATALOG)
     = [lead_capture_crm, marketing_drip, invoice_automation]"
proof -
  have "sorted_rev (score ulower empty_request)
          [lead_capture_crm, invoice_automation, marketing_drip, support_triage,
             ops_dashboard]
        = [lead_capture_crm, marketing_drip, invoice_automation, support_triage,
             ops_dashboard]"
    by (rule sorted_rev_five) (rule score_empty_request)+
  then show ?thesis by (simp add: recommend_by_score CATALOG_def)
qed

lemma kw_order_reduce_errors:
  "kw_order ulower reduce_errors_request = [ascii ''reduce_errors'']"
  by (simp add: kw_order_def reduce_errors_request_def industry_or_empty_def str_lower_def
      str_split_def)

lemma reduce_errors_not_in_haystack:
  "\<not> str_in (ascii ''reduce_errors'') (haystack ulower lead_capture_crm)"
  "\<not> str_in (ascii ''reduce_errors'') (haystack ulower invoice_automation)"
  "\<not> str_in (ascii ''reduce_errors'') (haystack ulower marketing_drip)"
  "\<not> str_in (ascii ''reduce_errors'') (haystack ulower support_triage)"
  "\<not> str_in (ascii ''reduce_errors'') (haystack ulower ops_dashboard)"
  by (simp_all add: str_eval)

lemma score_reduce_errors_request:
  "score ulower reduce_errors_request lead_capture_crm = 1"
  "score ulower reduce_errors_request invoice_automation = 0"
  "score ulower reduce_errors_request marketing_drip = 1"
  "score ulower reduce_errors_request support_triage = 0"
  "score ulower reduce_errors_request ops_dashboard = 0"
proof -
  have ts: "team_size reduce_errors_request = None"
    by (simp add: reduce_errors_request_def)
  show "score ulower reduce_errors_request lead_capture_crm = 1"
    "score ulower reduce_errors_request invoice_automation = 0"
    "score ulower reduce_errors_request marketing_drip = 1"
    "score ulower reduce_errors_request support_triage = 0"
    "score ulower reduce_errors_request ops_dashboard = 0"
    by (simp_all add: score_def score_parts kw_order_reduce_errors
        reduce_errors_not_in_haystack errors_bonus_catalog time_bonus_catalog
        low_bonus_absent_team_size [OF ts])
qed

lemma kw_order_save_time:
  "kw_order ulower save_time_request = [ascii ''save_time'', ascii ''lead_intake'']"
  by (simp add: kw_order_def save_time_request_def industry_or_empty_def str_lower_def
      str_split_def ascii_def)

lemma save_time_keywords_not_in_lead_capture:
  "\<not> str_in (ascii ''save_time'') (haystack ulower lead_capture_crm)"
  "\<not> str_in (ascii ''lead_intake'') (haystack ulower lead_capture_crm)"
  by (simp_all add: str_eval)

lemma lead_in_lead_capture: "str_in (ascii ''lead'') (haystack ulower lead_capture_crm)"
  by (simp add: str_eval)

lemma lead_capture_fields:
  "str_in (ascii ''lead'') (str_lower ulower (description lead_capture_crm))"
  "\<not> str_in (ascii ''lead'') (str_lower ulower (category lead_capture_crm))"
  "\<not> str_in (ascii ''tempo'') (str_lower ulower (description lead_capture_crm))"
  by (simp_all add: field_eval lead_capture_crm_def)

lemma score_save_time_lead_capture: "score ulower save_time_request lead_capture_crm = 1"
proof -
  have ts: "team_size save_time_request = None" by (simp add: save_time_request_def)
  show ?thesis
    by (simp add: score_def score_parts kw_order_save_time
        save_time_keywords_not_in_lead_capture errors_bonus_catalog time_bonus_catalog
        low_bonus_absent_team_size [OF ts])
qed

lemma split_sample:
  "str_split (str_lower ulower (ascii ''Lead  CRM'')) = [ascii ''lead'', ascii ''crm'']"
  by (simp add: str_split_def str_lower_def fixed_cp_def lower_cp_def ascii_def
      is_space_def)

lemma keywords_sample:
  "keywords_of ulower sample_request
     = {ascii ''lead'', ascii ''crm'', ascii ''save_time'', ascii ''dati''}"
  by (simp add: keywords_of_def sample_request_def industry_or_empty_def split_sample)
    (simp add: ascii_def insert_commute)

lemma sample_keywords_in_lead_capture:
  "str_in (ascii ''dati'') (haystack ulower lead_capture_crm)"
  "\<not> str_in (ascii ''save_time'') (haystack ulower lead_capture_crm)"
  "str_in (ascii ''crm'') (haystack ulower lead_capture_crm)"
  "str_in (ascii ''lead'') (haystack ulower lead_capture_crm)"
  by (simp_all add: str_eval)

lemma sample_order_distinct:
  "distinct [ascii ''dati'', ascii ''save_time'', ascii ''crm'', ascii ''lead'']"
  by (simp add: ascii_def)

lemma sample_order_set:
  "set [ascii ''dati'', ascii ''save_time'', ascii ''crm'', ascii ''lead'']
     = keywords_of ulower sample_request"
  by (simp add: keywords_sample) (simp add: ascii_def insert_commute)

lemma sample_loop:
  "kw_loop (haystack ulower lead_capture_crm)
     [ascii ''dati'', ascii ''save_time'', ascii ''crm'', ascii ''lead''] 0 = 6"
  using sample_keywords_in_lead_capture [of ulower]
  by (simp add: ascii_def)

lemma kw_order_letter: "kw_order ulower letter_request = [ascii ''e'']"
  by (simp add: kw_order_def letter_request_def industry_or_empty_def str_lower_def
      str_split_def)

lemma letter_in_haystack:
  "str_in (ascii ''e'') (haystack ulower lead_capture_crm)"
  "str_in (ascii ''e'') (haystack ulower invoice_automation)"
  "str_in (ascii ''e'') (haystack ulower marketing_drip)"
  "str_in (ascii ''e'') (haystack ulower support_triage)"
  "str_in (ascii ''e'') (haystack ulower ops_dashboard)"
  by (simp_all add: str_eval)

lemma letter_loop:
  "map (\<lambda>sol. kw_loop (haystack ulower sol) (kw_order ulower letter_request) 0) CATALOG
     = [2, 2, 2, 2, 2]"
  using letter_in_haystack [of ulower]
  by (simp add: CATALOG_def kw_order_letter) (simp add: ascii_def)

lemma kw_order_nonsense: "kw_order ulower nonsense_request = [ascii ''fly_to_mars'', []]"
  by (simp add: kw_order_def nonsense_request_def industry_or_empty_def str_lower_def
      fixed_cp_def lower_cp_def str_split_def is_space_def ascii_def)

lemma fly_to_mars_not_in_lead_capture:
  "\<not> str_in (ascii ''fly_to_mars'') (haystack ulower lead_capture_crm)"
  by (simp add: str_eval)

text \<open>
  With an interpreter that lowers the Kelvin sign to k, the keyword of \<open>kelvin_request\<close>
  is k and the three entries whose haystack contains it come first.
\<close>

lemma kw_order_kelvin:
  "ulower [8490] = ascii ''k'' \<Longrightarrow> kw_order ulower kelvin_request = [ascii ''k'']"
  by (simp add: kw_order_def kelvin_request_def industry_or_empty_def str_lower_def
      fixed_cp_def str_split_def is_space_def ascii_def)

lemma kelvin_in_haystack:
  "\<not> str_in (ascii ''k'') (haystack ulower lead_capture_crm)"
  "\<not> str_in (ascii ''k'') (haystack ulower invoice_automation)"
  "str_in (ascii ''k'') (haystack ulower marketing_drip)"
  "str_in (ascii ''k'') (haystack ulower support_triage)"
  "str_in (ascii ''k'') (haystack ulower ops_dashboard)"
  by (simp_all add: str_eval)

lemma low_bonus_kelvin: "low_bonus kelvin_request sol = 0"
  by (simp add: low_bonus_def kelvin_request_def ascii_def)

lemma score_kelvin_request:
  assumes "ulower [8490] = ascii ''k''"
  shows "map (score ulower kelvin_request) CATALOG = [0, 0, 2, 2, 2]"
proof -
  have ord: "kw_order ulower kelvin_request = [ascii ''k'']"
    using assms by (rule kw_order_kelvin)
  show ?thesis
    using kelvin_in_haystack [of ulower]
    by (simp add: CATALOG_def score_def score_parts ord errors_bonus_catalog
        time_bonus_catalog low_bonus_kelvin)
      (simp add: ascii_def)
qed

section \<open>Properties of the recommender\<close>

text \<open>
  Claim C1. Whatever the interpreter's lowering and whatever the order in which the
  keyword set is iterated, the keyword loop gives an entry 2 points for each distinct
  keyword that is a non-empty substring of its haystack. The keyword set is the union of
  the whitespace-split tokens of the lowercased industry with the goals and the processes
  as they are; the haystack is the lowercased title, category and description joined by
  single spaces, and does not depend on impact or tools. The score is this amount plus
  the three bonuses.
\<close>

theorem base_score_counts_keywords:
  assumes "distinct ks" and "set ks = keywords_of ulower req"
  shows "kw_loop (haystack ulower sol) ks 0 =
           2 * int (card {kw \<in> set (str_split (str_lower ulower (industry_or_empty req)))
                            \<union> set (goals req) \<union> set (processes req).
                          kw \<noteq> [] \<and> sublist kw (haystack ulower sol)})
         \<and> haystack ulower sol =
             str_lower ulower (title sol) @ ascii '' '' @ str_lower ulower (category sol)
               @ ascii '' '' @ str_lower ulower (description sol)
         \<and> haystack ulower (sol\<lparr>impact := i, tools := t\<rparr>) = haystack ulower sol
         \<and> score_iter ulower ks req sol =
             kw_loop (haystack ulower sol) ks 0 + errors_bonus req (haystack ulower sol)
               + time_bonus req (haystack ulower sol) + low_bonus req sol"
proof -
  have "kw_loop (haystack ulower sol) ks 0 =
          2 * int (card {kw \<in> set ks. kw \<noteq> [] \<and> str_in kw (haystack ulower sol)})"
    using assms(1) by (rule kw_loop_card)
  then have "kw_loop (haystack ulower sol) ks 0 =
          2 * int (card {kw \<in> keywords_of ulower req.
                          kw \<noteq> [] \<and> sublist kw (haystack ulower sol)})"
    using assms(2) by (simp add: str_in_sublist)
  moreover have "haystack ulower (sol\<lparr>impact := i, tools := t\<rparr>) = haystack ulower sol"
    by (simp add: haystack_def)
  moreover have "haystack ulower sol =
             str_lower ulower (title sol) @ ascii '' '' @ str_lower ulower (category sol)
               @ ascii '' '' @ str_lower ulower (description sol)"
    by (simp add: haystack_def)
  ultimately show ?thesis
    using score_parts [of ulower ks req sol] by (simp add: keywords_of_def)
qed

text \<open>
  The same at one input: the request \<open>sample_request\<close>, the first catalog entry and an
  iteration order that is not the order of insertion. Three of the four keywords occur.
\<close>

theorem base_score_counts_keywords_witness:
  "kw_loop (haystack latin1_lower lead_capture_crm)
     [ascii ''dati'', ascii ''save_time'', ascii ''crm'', ascii ''lead''] 0 = 6
   \<and> card {kw \<in> set (str_split (str_lower latin1_lower (industry_or_empty sample_request)))
                  \<union> set (goals sample_request) \<union> set (processes sample_request).
           kw \<noteq> [] \<and> sublist kw (haystack latin1_lower lead_capture_crm)} = 3"
proof -
  let ?ks = "[ascii ''dati'', ascii ''save_time'', ascii ''crm'', ascii ''lead'']"
  let ?S = "{kw \<in> set (str_split (str_lower latin1_lower (industry_or_empty sample_request)))
                  \<union> set (goals sample_request) \<union> set (processes sample_request).
           kw \<noteq> [] \<and> sublist kw (haystack latin1_lower lead_capture_crm)}"
  have "kw_loop (haystack latin1_lower lead_capture_crm) ?ks 0 = 2 * int (card ?S)"
    using base_score_counts_keywords [OF sample_order_distinct sample_order_set]
    by (rule conjunct1)
  then have "2 * int (card ?S) = 6" by (simp only: sample_loop)
  then have "card ?S = 3" by linarith
  then show ?thesis using sample_loop [of latin1_lower] by (simp only: simp_thms)
qed

text \<open>
  Claim C2. \<open>recommend\<close> returns the first three entries of the whole catalog sorted by
  score, descending: the sorted list is a permutation of the catalog, its scores never
  increase, and for each score \<open>k\<close> the entries that score \<open>k\<close> stand in the sorted
  list exactly as they stand in the catalog; in the output they are an initial part of
  that sequence.
\<close>

theorem recommend_sorts_descending_stable:
  "fst (recommend_iter ulower ks req cat)
     = take 3 (sorted_rev (score_iter ulower ks req) cat)
   \<and> mset (sorted_rev (score_iter ulower ks req) cat) = mset cat
   \<and> sorted_wrt (\<lambda>a b. score_iter ulower ks req b \<le> score_iter ulower ks req a)
        (sorted_rev (score_iter ulower ks req) cat)
   \<and> filter (\<lambda>x. score_iter ulower ks req x = k) (sorted_rev (score_iter ulower ks req) cat)
        = filter (\<lambda>x. score_iter ulower ks req x = k) cat
   \<and> prefix
        (filter (\<lambda>x. score_iter ulower ks req x = k) (fst (recommend_iter ulower ks req cat)))
        (filter (\<lambda>x. score_iter ulower ks req x = k) cat)"
proof -
  let ?key = "score_iter ulower ks req"
  let ?ranked = "sorted_rev ?key cat"
  have out: "fst (recommend_iter ulower ks req cat) = take 3 ?ranked"
    by (simp add: recommend_iter_def)
  have st: "filter (\<lambda>x. ?key x = k) ?ranked = filter (\<lambda>x. ?key x = k) cat"
    by (rule sorted_rev_stable)
  have "prefix (take 3 ?ranked) ?ranked" by (rule take_is_prefix)
  then have "prefix (filter (\<lambda>x. ?key x = k) (take 3 ?ranked))
               (filter (\<lambda>x. ?key x = k) ?ranked)"
    by (rule filter_mono_prefix)
  then have pre: "prefix (filter (\<lambda>x. ?key x = k) (fst (recommend_iter ulower ks req cat)))
               (filter (\<lambda>x. ?key x = k) cat)"
    using out st by simp
  show ?thesis
    using out st pre mset_sorted_rev [of ?key cat] sorted_rev_descending [of ?key cat]
    by simp
qed

text \<open>
  Claim C3, as the code has it. For the empty request the team size is absent, and an
  absent team size is one of the three values that give a Low-complexity entry its bonus
  of 1. The scores are 1, 0, 1, 0, 0 and \<open>recommend\<close> returns lead-capture-crm,
  marketing-drip and invoice-automation, in this order.
\<close>

theorem empty_request_low_entries_first:
  "map (score ulower empty_request) CATALOG = [1, 0, 1, 0, 0]
   \<and> fst (recommend ulower empty_request CATALOG)
       = [lead_capture_crm, marketing_drip, invoice_automation]"
  by (simp add: recommend_empty_request) (simp add: CATALOG_def score_empty_request)

text \<open>
  The scores of the empty request do not tie at 0, and the result is not the first three
  catalog entries.
\<close>

theorem empty_request_scores_tie_counterexample:
  "map (score latin1_lower empty_request) CATALOG \<noteq> [0, 0, 0, 0, 0]
   \<and> low_bonus empty_request lead_capture_crm = 1
   \<and> fst (recommend latin1_lower empty_request CATALOG) \<noteq> take 3 CATALOG"
proof -
  have ts: "team_size empty_request = None" by (simp add: empty_request_def)
  have "fst (recommend latin1_lower empty_request CATALOG) \<noteq> take 3 CATALOG"
    unfolding recommend_empty_request using catalog_entries_differ
    by (auto simp add: CATALOG_def)
  then show ?thesis
    by (simp add: CATALOG_def score_empty_request low_bonus_absent_team_size [OF ts])
qed

text \<open>
  Claim C4. \<open>recommend\<close> returns exactly \<open>min 3 n\<close> entries of a catalog of \<open>n\<close>
  entries, so at most 3; the catalog has 5 entries and \<open>recommend\<close> returns 3 of them.
\<close>

theorem recommend_length:
  "length (fst (recommend_iter ulower ks req cat)) = min 3 (length cat)
   \<and> length (fst (recommend ulower req cat)) = min 3 (length cat)
   \<and> length CATALOG = 5
   \<and> length (fst (recommend ulower req CATALOG)) = 3"
  by (simp add: recommend_def recommend_iter_def length_sorted_rev CATALOG_def)

text \<open>
  Claim C5, as the code has it. No haystack of the catalog contains \<open>error\<close>: the word
  \<open>errori\<close> of invoice-automation stands in its impact, which the haystack leaves out.
  With goals \<open>["reduce_errors"]\<close> and no processes, invoice-automation therefore
  receives no bonus for the goal, whatever the industry and the team size; with both
  absent the scores are 1, 0, 1, 0, 0.
\<close>

theorem reduce_errors_request_scores:
  "map (\<lambda>sol. str_in (ascii ''error'') (haystack ulower sol)) CATALOG
     = [False, False, False, False, False]
   \<and> str_in (ascii ''error'') (str_lower ulower (impact invoice_automation))
   \<and> errors_bonus \<lparr> industry = i, team_size = t, goals = [ascii ''reduce_errors''],
        processes = [] \<rparr> (haystack ulower invoice_automation) = 0
   \<and> map (score ulower reduce_errors_request) CATALOG = [1, 0, 1, 0, 0]"
  by (simp add: error_in_invoice_impact errors_bonus_catalog)
    (simp add: CATALOG_def error_not_in_haystack score_reduce_errors_request)

text \<open>
  For that request invoice-automation does not receive the bonus, and lead-capture-crm,
  whose haystack does not contain \<open>error\<close>, does not score lower than it.
\<close>

theorem reduce_errors_bonus_counterexample:
  "\<not> str_in (ascii ''error'') (haystack latin1_lower invoice_automation)
   \<and> errors_bonus reduce_errors_request (haystack latin1_lower invoice_automation) \<noteq> 2
   \<and> \<not> str_in (ascii ''error'') (haystack latin1_lower lead_capture_crm)
   \<and> \<not> score latin1_lower reduce_errors_request lead_capture_crm
         < score latin1_lower reduce_errors_request invoice_automation"
  by (simp add: error_not_in_haystack errors_bonus_catalog score_reduce_errors_request)

text \<open>
  Claim C6, as the code has it. With goals \<open>["save_time"]\<close> and processes
  \<open>["lead_intake"]\<close> the keywords are these two strings as they are. The haystack of
  lead-capture-crm contains \<open>lead\<close> but neither keyword, so the keyword loop gives it 0;
  it does not contain \<open>tempo\<close>, so the bonus for the goal is 0. Its score is 1, the
  bonus of a Low-complexity entry when the team size is absent.
\<close>

theorem save_time_lead_capture_score:
  "keywords_of ulower save_time_request = {ascii ''save_time'', ascii ''lead_intake''}
   \<and> str_in (ascii ''lead'') (haystack ulower lead_capture_crm)
   \<and> \<not> str_in (ascii ''lead_intake'') (haystack ulower lead_capture_crm)
   \<and> \<not> str_in (ascii ''save_time'') (haystack ulower lead_capture_crm)
   \<and> kw_loop (haystack ulower lead_capture_crm) (kw_order ulower save_time_request) 0 = 0
   \<and> \<not> str_in (ascii ''tempo'') (haystack ulower lead_capture_crm)
   \<and> time_bonus save_time_request (haystack ulower lead_capture_crm) = 0
   \<and> score ulower save_time_request lead_capture_crm = 1"
proof -
  have "keywords_of ulower save_time_request
          = {ascii ''save_time'', ascii ''lead_intake''}"
    using set_kw_order [of ulower save_time_request] by (simp add: kw_order_save_time)
  then show ?thesis
    by (simp add: kw_order_save_time save_time_keywords_not_in_lead_capture
      lead_in_lead_capture time_bonus_catalog tempo_not_in_haystack
      score_save_time_lead_capture)
qed

text \<open>
  For that request lead-capture-crm gains nothing from the keyword loop, its description
  does not contain \<open>tempo\<close>, and it does not receive the bonus for \<open>save_time\<close>.
\<close>

theorem save_time_lead_capture_counterexample:
  "\<not> 0 < kw_loop (haystack latin1_lower lead_capture_crm)
            (kw_order latin1_lower save_time_request) 0
   \<and> \<not> str_in (ascii ''tempo'') (str_lower latin1_lower (description lead_capture_crm))
   \<and> time_bonus save_time_request (haystack latin1_lower lead_capture_crm) \<noteq> 2"
  by (simp add: kw_order_save_time save_time_keywords_not_in_lead_capture
      lead_capture_fields time_bonus_catalog)

text \<open>
  Claim C7, as the code has it. Every operation \<open>recommend\<close> uses is defined on every
  string, list and optional string, so it has no failing branch: for every request,
  iteration order and catalog, the empty one too, it returns the first \<open>min 3 n\<close>
  entries of the sorted catalog and leaves the catalog as it was. An absent or empty
  industry, an empty list of goals and an empty list of processes each add no keyword,
  and without goals both goal bonuses are 0; a team size other than \<open>solo\<close> and
  \<open>small\<close> adds 0. Two inputs do not add 0. An absent team size adds 1 to each
  Low-complexity entry. A keyword, sensible or not, adds 2 to an entry exactly when it is
  a non-empty substring of the haystack: the loop gives 2 times the number of such
  keywords in the iteration.
\<close>

theorem recommend_total_degrades:
  assumes "t \<noteq> ascii ''solo''" and "t \<noteq> ascii ''small''"
  shows "recommend_iter ulower ks req cat
           = (take 3 (sorted_rev (score_iter ulower ks req) cat), cat)
    \<and> length (fst (recommend_iter ulower ks req cat)) = min 3 (length cat)
    \<and> set (fst (recommend_iter ulower ks req cat)) \<subseteq> set cat
    \<and> snd (recommend_iter ulower ks req cat) = cat
    \<and> kw_loop s ks 0 = 2 * int (length (filter (\<lambda>kw. kw \<noteq> [] \<and> sublist kw s) ks))
    \<and> keywords_of ulower (req\<lparr>industry := None\<rparr>) = set (goals req) \<union> set (processes req)
    \<and> keywords_of ulower (req\<lparr>industry := Some []\<rparr>)
        = set (goals req) \<union> set (processes req)
    \<and> keywords_of ulower (req\<lparr>goals := []\<rparr>)
        = set (str_split (str_lower ulower (industry_or_empty req))) \<union> set (processes req)
    \<and> keywords_of ulower (req\<lparr>processes := []\<rparr>)
        = set (str_split (str_lower ulower (industry_or_empty req))) \<union> set (goals req)
    \<and> errors_bonus (req\<lparr>goals := []\<rparr>) s = 0
    \<and> time_bonus (req\<lparr>goals := []\<rparr>) s = 0
    \<and> low_bonus (req\<lparr>team_size := Some t\<rparr>) sol = 0
    \<and> low_bonus (req\<lparr>team_size := None\<rparr>) sol
        = (if complexity sol = ascii ''Low'' then 1 else 0)"
proof -
  have res: "recommend_iter ulower ks req cat
               = (take 3 (sorted_rev (score_iter ulower ks req) cat), cat)"
    by (simp add: recommend_iter_def)
  have len: "length (fst (recommend_iter ulower ks req cat)) = min 3 (length cat)"
    by (simp add: recommend_iter_def length_sorted_rev)
  have "set (take 3 (sorted_rev (score_iter ulower ks req) cat)) \<subseteq> set cat"
    using set_take_subset [of 3 "sorted_rev (score_iter ulower ks req) cat"]
    by (simp add: set_sorted_rev)
  then have sub: "set (fst (recommend_iter ulower ks req cat)) \<subseteq> set cat"
    by (simp add: recommend_iter_def)
  have frame: "snd (recommend_iter ulower ks req cat) = cat"
    by (simp add: recommend_iter_def)
  have loop: "kw_loop s ks 0
                = 2 * int (length (filter (\<lambda>kw. kw \<noteq> [] \<and> sublist kw s) ks))"
    using kw_loop_filter [of s ks] by (simp add: str_in_sublist)
  have kws: "keywords_of ulower (req\<lparr>industry := None\<rparr>)
               = set (goals req) \<union> set (processes req)"
    "keywords_of ulower (req\<lparr>industry := Some []\<rparr>)
       = set (goals req) \<union> set (processes req)"
    "keywords_of ulower (req\<lparr>goals := []\<rparr>)
       = set (str_split (str_lower ulower (industry_or_empty req))) \<union> set (processes req)"
    "keywords_of ulower (req\<lparr>processes := []\<rparr>)
       = set (str_split (str_lower ulower (industry_or_empty req))) \<union> set (goals req)"
    by (simp_all add: keywords_of_def industry_or_empty_def str_lower_empty str_split_def)
  have goal: "errors_bonus (req\<lparr>goals := []\<rparr>) s = 0"
    "time_bonus (req\<lparr>goals := []\<rparr>) s = 0"
    by (simp_all add: errors_bonus_def time_bonus_def)
  have low: "low_bonus (req\<lparr>team_size := Some t\<rparr>) sol = 0"
    "low_bonus (req\<lparr>team_size := None\<rparr>) sol
        = (if complexity sol = ascii ''Low'' then 1 else 0)"
    using assms by (simp_all add: low_bonus_def)
  show ?thesis
    using res len sub frame loop kws goal low by (simp only: simp_thms)
qed

text \<open>
  The same at the request \<open>nonsense_request\<close> and the first catalog entry: a blank
  industry, a goal that occurs nowhere, an empty process and an unknown team size add
  nothing.
\<close>

theorem recommend_total_degrades_witness:
  "kw_order latin1_lower nonsense_request = [ascii ''fly_to_mars'', []]
   \<and> length (filter (\<lambda>kw. kw \<noteq> [] \<and> sublist kw (haystack latin1_lower lead_capture_crm))
        (kw_order latin1_lower nonsense_request)) = 0
   \<and> low_bonus nonsense_request lead_capture_crm = 0
   \<and> length (fst (recommend latin1_lower nonsense_request CATALOG)) = 3
   \<and> snd (recommend latin1_lower nonsense_request CATALOG) = CATALOG"
proof -
  have h1: "ascii ''huge'' \<noteq> ascii ''solo''" and h2: "ascii ''huge'' \<noteq> ascii ''small''"
    by (simp_all add: ascii_def)
  have same: "nonsense_request\<lparr>team_size := Some (ascii ''huge'')\<rparr> = nonsense_request"
    by (simp add: nonsense_request_def)
  have zero: "kw_loop (haystack latin1_lower lead_capture_crm)
                (kw_order latin1_lower nonsense_request) 0 = 0"
    by (simp add: kw_order_nonsense fly_to_mars_not_in_lead_capture)
  note a = recommend_total_degrades [OF h1 h2, of latin1_lower
      "kw_order latin1_lower nonsense_request" nonsense_request CATALOG
      "haystack latin1_lower lead_capture_crm" lead_capture_crm]
  note len = a [THEN conjunct2, THEN conjunct1]
  note frame = a [THEN conjunct2, THEN conjunct2, THEN conjunct2, THEN conjunct1]
  note loop = a [THEN conjunct2, THEN conjunct2, THEN conjunct2, THEN conjunct2,
      THEN conjunct1]
  have "2 * int (length (filter
            (\<lambda>kw. kw \<noteq> [] \<and> sublist kw (haystack latin1_lower lead_capture_crm))
            (kw_order latin1_lower nonsense_request))) = 0"
    using loop zero by (simp only:)
  then have "length (filter
            (\<lambda>kw. kw \<noteq> [] \<and> sublist kw (haystack latin1_lower lead_capture_crm))
            (kw_order latin1_lower nonsense_request)) = 0"
    by linarith
  moreover have "low_bonus nonsense_request lead_capture_crm = 0"
    using a same by (simp only: simp_thms)
  moreover have "length (fst (recommend latin1_lower nonsense_request CATALOG)) = 3"
  proof -
    have "length CATALOG = 5" by (simp add: CATALOG_def)
    then show ?thesis using len by (simp add: recommend_def)
  qed
  moreover have "snd (recommend latin1_lower nonsense_request CATALOG) = CATALOG"
    using frame by (simp add: recommend_def)
  ultimately show ?thesis by (simp only: kw_order_nonsense simp_thms)
qed

text \<open>
  Two inputs that do not contribute 0. An absent team size: the empty request gives
  marketing-drip the score 1. A goal outside the vocabulary: the goal \<open>e\<close> adds 2 to
  each of the five entries.
\<close>

theorem missing_team_size_counterexample:
  "team_size empty_request = None
   \<and> low_bonus empty_request marketing_drip = 1
   \<and> score latin1_lower empty_request marketing_drip \<noteq> 0
   \<and> goals letter_request = [ascii ''e'']
   \<and> map (\<lambda>sol. kw_loop (haystack latin1_lower sol) (kw_order latin1_lower letter_request) 0)
        CATALOG = [2, 2, 2, 2, 2]"
proof -
  have ts: "team_size empty_request = None" by (simp add: empty_request_def)
  have g: "goals letter_request = [ascii ''e'']" by (simp add: letter_request_def)
  show ?thesis
    using letter_loop [of latin1_lower]
    by (simp add: ts g score_empty_request low_bonus_absent_team_size [OF ts])
qed

text \<open>
  Claim C8. Two calls whose requests agree on industry, team size, goals and processes
  return the same sequence against the same catalog, also when the two calls iterate
  the keyword set in different orders.
\<close>

theorem recommend_deterministic:
  assumes "industry r1 = industry r2" and "team_size r1 = team_size r2"
    and "goals r1 = goals r2" and "processes r1 = processes r2"
    and "distinct ks1" and "set ks1 = keywords_of ulower r1"
    and "distinct ks2" and "set ks2 = keywords_of ulower r2"
  shows "fst (recommend_iter ulower ks1 r1 cat) = fst (recommend_iter ulower ks2 r2 cat)"
proof -
  have req: "r1 = r2" using assms(1-4) by simp
  then have "set ks1 = set ks2" using assms(6,8) by simp
  then have "kw_loop s ks1 0 = kw_loop s ks2 0" for s
    using assms(5,7) by (rule kw_loop_order [rotated 2])
  then have "score_iter ulower ks1 r1 = score_iter ulower ks2 r2"
    using req by (simp add: score_iter_def Let_def fun_eq_iff)
  then show ?thesis by (simp add: recommend_iter_def)
qed

text \<open>
  The same at \<open>sample_request\<close>, iterated once in a reversed order and once in the order
  of \<open>kw_order\<close>.
\<close>

theorem recommend_deterministic_witness:
  "fst (recommend_iter latin1_lower
          [ascii ''dati'', ascii ''save_time'', ascii ''crm'', ascii ''lead'']
          sample_request CATALOG)
     = fst (recommend latin1_lower sample_request CATALOG)"
  using recommend_deterministic [OF refl refl refl refl sample_order_distinct
      sample_order_set distinct_kw_order set_kw_order, of latin1_lower CATALOG]
  by (simp only: recommend_def)

text \<open>
  Claim C9. Neither operation changes the catalog: after any run of calls it is still
  the same sequence of five entries, listing it gives that sequence, and listing it
  twice gives the same result. \<open>recommend\<close> returns a new list and leaves the catalog as
  it was.
\<close>

theorem catalog_never_mutated:
  "run_calls ulower cs CATALOG = CATALOG
   \<and> snd (list_solutions cat) = cat
   \<and> snd (recommend ulower req cat) = cat
   \<and> fst (list_solutions (snd (list_solutions cat))) = fst (list_solutions cat)
   \<and> fst (list_solutions (run_calls ulower cs CATALOG))
       = [lead_capture_crm, invoice_automation, marketing_drip, support_triage, ops_dashboard]"
  by (simp add: run_calls_store list_solutions_def recommend_def recommend_iter_def
      CATALOG_def)

text \<open>
  Claim C10, as the code has it. No haystack of the catalog contains \<open>error\<close> or
  \<open>tempo\<close>, so for every request both goal bonuses are 0 on every entry and the score
  is the keyword loop plus the Low-complexity bonus. Of the lowercased fields of the
  entries (id, title, category, description, impact, the three tools, complexity) one
  contains \<open>error\<close>, the impact of invoice-automation, and none contains \<open>tempo\<close>.
\<close>

theorem goal_bonuses_never_fire:
  "map (\<lambda>sol. str_in (ascii ''error'') (haystack ulower sol)) CATALOG
     = [False, False, False, False, False]
   \<and> map (\<lambda>sol. str_in (ascii ''tempo'') (haystack ulower sol)) CATALOG
     = [False, False, False, False, False]
   \<and> map (\<lambda>sol. errors_bonus req (haystack ulower sol)) CATALOG = [0, 0, 0, 0, 0]
   \<and> map (\<lambda>sol. time_bonus req (haystack ulower sol)) CATALOG = [0, 0, 0, 0, 0]
   \<and> map (\<lambda>sol. score_iter ulower ks req sol) CATALOG
     = map (\<lambda>sol. kw_loop (haystack ulower sol) ks 0 + low_bonus req sol) CATALOG
   \<and> map (\<lambda>sol. map (\<lambda>f. str_in (ascii ''error'') (str_lower ulower f)) (text_fields sol))
       CATALOG
     = [[False, False, False, False, False, False, False, False, False],
        [False, False, False, False, True, False, False, False, False],
        [False, False, False, False, False, False, False, False, False],
        [False, False, False, False, False, False, False, False, False],
        [False, False, False, False, False, False, False, False, False]]
   \<and> map (\<lambda>sol. map (\<lambda>f. str_in (ascii ''tempo'') (str_lower ulower f)) (text_fields sol))
       CATALOG
     = [[False, False, False, False, False, False, False, False, False],
        [False, False, False, False, False, False, False, False, False],
        [False, False, False, False, False, False, False, False, False],
        [False, False, False, False, False, False, False, False, False],
        [False, False, False, False, False, False, False, False, False]]"
proof -
  have hay: "map (\<lambda>sol. str_in (ascii ''error'') (haystack ulower sol)) CATALOG
               = [False, False, False, False, False]"
    "map (\<lambda>sol. str_in (ascii ''tempo'') (haystack ulower sol)) CATALOG
       = [False, False, False, False, False]"
    by (simp_all add: CATALOG_def error_not_in_haystack tempo_not_in_haystack)
  have bon: "map (\<lambda>sol. errors_bonus req (haystack ulower sol)) CATALOG = [0, 0, 0, 0, 0]"
    "map (\<lambda>sol. time_bonus req (haystack ulower sol)) CATALOG = [0, 0, 0, 0, 0]"
    by (simp_all add: CATALOG_def errors_bonus_catalog time_bonus_catalog)
  have sc: "map (\<lambda>sol. score_iter ulower ks req sol) CATALOG
     = map (\<lambda>sol. kw_loop (haystack ulower sol) ks 0 + low_bonus req sol) CATALOG"
    by (simp add: CATALOG_def score_parts errors_bonus_catalog time_bonus_catalog)
  have fe: "map (\<lambda>sol. map (\<lambda>f. str_in (ascii ''error'') (str_lower ulower f))
                 (text_fields sol)) CATALOG
     = [[False, False, False, False, False, False, False, False, False],
        [False, False, False, False, True, False, False, False, False],
        [False, False, False, False, False, False, False, False, False],
        [False, False, False, False, False, False, False, False, False],
        [False, False, False, False, False, False, False, False, False]]"
    by (simp add: CATALOG_def error_in_fields)
  have ft: "map (\<lambda>sol. map (\<lambda>f. str_in (ascii ''tempo'') (str_lower ulower f))
                 (text_fields sol)) CATALOG
     = [[False, False, False, False, False, False, False, False, False],
        [False, False, False, False, False, False, False, False, False],
        [False, False, False, False, False, False, False, False, False],
        [False, False, False, False, False, False, False, False, False],
        [False, False, False, False, False, False, False, False, False]]"
    by (simp add: CATALOG_def tempo_in_fields)
  show ?thesis
    using hay bon sc fe ft by (simp only: simp_thms)
qed

text \<open>
  \<open>tempo\<close> does not occur in an impact field: the impact of no entry contains it
  (two of them read \<open>tempi\<close>).
\<close>

theorem tempo_in_no_impact_counterexample:
  "\<not> list_ex (\<lambda>sol. str_in (ascii ''tempo'') (str_lower latin1_lower (impact sol))) CATALOG
   \<and> str_in (ascii ''tempi'') (str_lower latin1_lower (impact lead_capture_crm))
   \<and> str_in (ascii ''tempi'') (str_lower latin1_lower (impact support_triage))"
  by (simp add: CATALOG_def tempo_not_in_impact)
    (simp add: field_eval lead_capture_crm_def support_triage_def)

end
